theory Spec2Isabelle
  imports Main
begin

section \<open>Exceptions and HTTP status codes\<close>

text \<open>
  The exceptions the authentication code throws or receives from its collaborators.
  The first three are NestJS HTTP exceptions; \<open>PrismaClientKnownRequestError\<close> carries
  Prisma's error code (\<open>P2002\<close> is a unique-constraint violation); \<open>Error\<close> is a plain
  JavaScript error; the last two are the errors of the jsonwebtoken library.
\<close>

datatype exception =
    ConflictException string
  | UnauthorizedException string
  | InternalServerErrorException string
  | PrismaClientKnownRequestError string
  | Error string
  | JsonWebTokenError string
  | TokenExpiredError string

text \<open>
  The status NestJS answers with when a handler or a guard throws: the status of an
  HTTP exception, and 500 for anything that is not an HTTP exception.
\<close>

fun getStatus :: "exception \<Rightarrow> nat" where
  "getStatus (ConflictException m) = 409"
| "getStatus (UnauthorizedException m) = 401"
| "getStatus (InternalServerErrorException m) = 500"
| "getStatus (PrismaClientKnownRequestError c) = 500"
| "getStatus (Error m) = 500"
| "getStatus (JsonWebTokenError m) = 500"
| "getStatus (TokenExpiredError m) = 500"

text \<open>
  The status of a response: the route's success code (\<open>@HttpCode\<close>) when the handler
  returns, the exception's status when the request was rejected.
\<close>

definition http_status :: "nat \<Rightarrow> exception + 'a \<Rightarrow> nat" where
  "http_status ok r = (case r of Inl e \<Rightarrow> getStatus e | Inr v \<Rightarrow> ok)"

section \<open>The credential store\<close>

text \<open>
  The \<open>User\<close> model of the Prisma schema:
  \<^verbatim>\<open>
  model User {
    id        String   @id @default(cuid())
    email     String   @unique
    password  String
    createdAt DateTime @default(now())
  }
  \<close>
  The table is the list of its rows, in insertion order. The field \<open>id\<close> is written
  \<open>id'\<close>, since \<open>id\<close> is the identity function of HOL.
\<close>

record User =
  id' :: string
  email :: string
  password :: string
  createdAt :: nat

type_synonym db = "User list"

text \<open>The row shape of \<open>select: { id: true, email: true, createdAt: true }\<close>.\<close>

record PublicUser =
  id' :: string
  email :: string
  createdAt :: nat

definition select_public :: "User \<Rightarrow> PublicUser" where
  "select_public u =
     \<lparr>PublicUser.id' = User.id' u, PublicUser.email = User.email u,
      PublicUser.createdAt = User.createdAt u\<rparr>"

text \<open>\<open>prisma.user.findUnique({ where: { email } })\<close> and \<open>findUnique({ where: { id } })\<close>.\<close>

definition findUnique_email :: "db \<Rightarrow> string \<Rightarrow> User option" where
  "findUnique_email d e = find (\<lambda>u. User.email u = e) d"

definition findUnique_id :: "db \<Rightarrow> string \<Rightarrow> User option" where
  "findUnique_id d i = find (\<lambda>u. User.id' u = i) d"

text \<open>
  \<open>prisma.user.create({ data: { email, password } })\<close>. The database fills in the
  defaults \<open>cuid()\<close> and \<open>now()\<close>, given here as arguments, and enforces \<open>@unique\<close> on
  the email and \<open>@id\<close> on the identifier: a violation leaves the table as it is and the
  client throws \<open>PrismaClientKnownRequestError\<close> with code \<open>P2002\<close>.
\<close>

definition user_create :: "db \<Rightarrow> string \<Rightarrow> nat \<Rightarrow> string \<Rightarrow> string \<Rightarrow> exception + (User \<times> db)" where
  "user_create d new_id t e pw =
     (if findUnique_email d e \<noteq> None then Inl (PrismaClientKnownRequestError ''P2002'')
      else if findUnique_id d new_id \<noteq> None then Inl (PrismaClientKnownRequestError ''P2002'')
      else (let u = \<lparr>User.id' = new_id, User.email = e, User.password = pw,
                       User.createdAt = t\<rparr>
            in Inr (u, d @ [u])))"

section \<open>The password hasher\<close>

text \<open>
  The bcrypt library is a collaborator, taken as a parameter: \<open>hash pw rounds salt\<close> is
  \<open>bcrypt.hash(pw, rounds)\<close> when the library draws the random salt \<open>salt\<close>, and
  \<open>compare pw h\<close> is \<open>bcrypt.compare(pw, h)\<close>.
\<close>

record Bcrypt =
  hash :: "string \<Rightarrow> nat \<Rightarrow> string \<Rightarrow> string"
  compare :: "string \<Rightarrow> string \<Rightarrow> bool"

text \<open>
  An executable instance of the interface, for running the model on concrete inputs. It
  keeps the two features of bcrypt that matter to the callers: the salt is part of the
  hash, and \<open>compare\<close> accepts exactly the passwords that hash to the stored value
  under the stored salt. The digest itself is left symbolic.
\<close>

definition symbolic_bcrypt :: Bcrypt where
  "symbolic_bcrypt =
     \<lparr>hash = (\<lambda>pw rounds salt. ''$2b$'' @ salt @ ''$'' @ pw),
      compare = (\<lambda>pw h. take 4 h = ''$2b$'' \<and>
                   dropWhile (\<lambda>c. c \<noteq> CHR ''$'') (drop 4 h) = CHR ''$'' # pw)\<rparr>"

section \<open>The token issuer\<close>

text \<open>
  The claims of a token: \<open>sub\<close> and \<open>email\<close> come from the caller, \<open>iat\<close> and \<open>exp\<close>
  (seconds) are added by the jsonwebtoken library when it signs.
\<close>

record JwtPayload =
  sub :: string
  email :: string
  iat :: nat
  exp :: nat

text \<open>
  Tokens are symbolic: a well-formed token is its claims together with the key that
  signed them, anything else a client may send is \<open>Malformed\<close>.
\<close>

datatype jwt = Signed JwtPayload string | Malformed string

text \<open>\<open>jwtService.sign({ sub, email }, { secret, expiresIn })\<close> at time \<open>t\<close>.\<close>

definition jwt_sign :: "string \<Rightarrow> string \<Rightarrow> string \<Rightarrow> nat \<Rightarrow> nat \<Rightarrow> jwt" where
  "jwt_sign s e secret expiresIn t =
     Signed \<lparr>JwtPayload.sub = s, JwtPayload.email = e, JwtPayload.iat = t,
             JwtPayload.exp = t + expiresIn\<rparr> secret"

text \<open>The duration \<open>'7d'\<close>, in seconds.\<close>

definition seven_days :: nat where
  "seven_days = 7 * 24 * 60 * 60"

text \<open>
  \<open>jwt.verify(token, secret)\<close> at time \<open>t\<close>: the shape of the token, then the signature,
  then the expiry (a token is expired from the second \<open>exp\<close> on).
\<close>

definition jwt_verify :: "jwt \<Rightarrow> string \<Rightarrow> nat \<Rightarrow> exception + JwtPayload" where
  "jwt_verify tok secret t =
     (case tok of
        Malformed s \<Rightarrow> Inl (JsonWebTokenError ''jwt malformed'')
      | Signed p k \<Rightarrow>
          if k \<noteq> secret then Inl (JsonWebTokenError ''invalid signature'')
          else if JwtPayload.exp p \<le> t then Inl (TokenExpiredError ''jwt expired'')
          else Inr p)"

section \<open>Configuration and start-up\<close>

text \<open>The environment, as far as authentication reads it.\<close>

record Config =
  JWT_SECRET :: "string option"

text \<open>
  No signing secret is configured: \<open>config.get<string>('JWT_SECRET')\<close> is falsy, which
  JavaScript's \<open>!secret\<close> is for an unset variable and for the empty string.
\<close>

definition no_secret :: "Config \<Rightarrow> bool" where
  "no_secret c = (case JWT_SECRET c of None \<Rightarrow> True | Some s \<Rightarrow> s = [])"

record JwtModuleOptions =
  secret :: string
  expiresIn :: nat

text \<open>The \<open>useFactory\<close> of \<open>JwtModule.registerAsync\<close> in the auth module.\<close>

definition useFactory :: "Config \<Rightarrow> exception + JwtModuleOptions" where
  "useFactory c =
     (case JWT_SECRET c of
        None \<Rightarrow> Inl (Error ''JWT_SECRET must be defined in environment variables'')
      | Some s \<Rightarrow>
          if s = [] then Inl (Error ''JWT_SECRET must be defined in environment variables'')
          else Inr \<lparr>secret = s, expiresIn = seven_days\<rparr>)"

text \<open>
  The constructor of \<open>JwtStrategy\<close> (src/auth/jwt.strategy.ts, as listed in the
  implementation guide): it reads the secret once and refuses to be built without one.
  The value is the \<open>secretOrKey\<close> the strategy verifies with.
\<close>

definition JwtStrategy_constructor :: "Config \<Rightarrow> exception + string" where
  "JwtStrategy_constructor c =
     (case JWT_SECRET c of
        None \<Rightarrow> Inl (Error ''JWT_SECRET must be defined in environment variables'')
      | Some s \<Rightarrow>
          if s = [] then Inl (Error ''JWT_SECRET must be defined in environment variables'')
          else Inr s)"

text \<open>
  The running application: the configuration it was started with, the options of the
  JWT module and the key of the strategy.
\<close>

record App =
  config :: Config
  jwtOptions :: JwtModuleOptions
  secretOrKey :: string

text \<open>
  \<open>bootstrap\<close> of main.ts: \<open>NestFactory.create(AppModule)\<close> builds the providers of the
  imported modules; an error thrown by any of them rejects the promise and the server
  never listens.
\<close>

definition bootstrap :: "Config \<Rightarrow> exception + App" where
  "bootstrap c =
     (case useFactory c of
        Inl e \<Rightarrow> Inl e
      | Inr opts \<Rightarrow>
          (case JwtStrategy_constructor c of
             Inl e \<Rightarrow> Inl e
           | Inr k \<Rightarrow> Inr \<lparr>config = c, jwtOptions = opts, secretOrKey = k\<rparr>))"

section \<open>The auth service\<close>

text \<open>\<open>private readonly saltRounds = 10\<close>.\<close>

definition saltRounds :: nat where
  "saltRounds = 10"

text \<open>
  What a call of \<open>register\<close> takes from its surroundings: the salt bcrypt draws, the
  identifier and the timestamp the database generates, and the rows that other
  requests commit between this call's lookup and its insert (the calls are
  asynchronous, and the lookup and the insert are two separate statements).
\<close>

record RegisterEnv =
  salt :: string
  concurrent :: "User list"
  cuid :: string
  now :: nat

record RegisterResult =
  message :: string
  user :: PublicUser

text \<open>
  The body of the \<open>try\<close> block of \<open>AuthService.register\<close>. The result is what the
  block returns or throws, together with the table afterwards.
\<close>

definition register_try ::
  "Bcrypt \<Rightarrow> RegisterEnv \<Rightarrow> db \<Rightarrow> string \<Rightarrow> string \<Rightarrow> (exception + RegisterResult) \<times> db" where
  "register_try bc env d e pw =
     (case findUnique_email d e of
        Some existingUser \<Rightarrow>
          (Inl (ConflictException ''User with this email already exists''), d)
      | None \<Rightarrow>
          (let hashedPassword = hash bc pw saltRounds (salt env);
               d1 = d @ concurrent env
           in case user_create d1 (cuid env) (now env) e hashedPassword of
                Inl err \<Rightarrow> (Inl err, d1)
              | Inr (u, d2) \<Rightarrow>
                  (Inr \<lparr>message = ''User registered successfully'',
                        RegisterResult.user = select_public u\<rparr>, d2)))"

text \<open>
  \<open>AuthService.register\<close>: the \<open>catch\<close> clause rethrows a \<open>ConflictException\<close> and
  replaces every other error by \<open>InternalServerErrorException\<close>.
\<close>

definition register ::
  "Bcrypt \<Rightarrow> RegisterEnv \<Rightarrow> db \<Rightarrow> string \<Rightarrow> string \<Rightarrow> (exception + RegisterResult) \<times> db" where
  "register bc env d e pw =
     (case register_try bc env d e pw of
        (Inl error, d') \<Rightarrow>
          (case error of
             ConflictException m \<Rightarrow> (Inl error, d')
           | _ \<Rightarrow> (Inl (InternalServerErrorException ''Failed to register user''), d'))
      | (Inr r, d') \<Rightarrow> (Inr r, d'))"

record LoginUser =
  id' :: string
  email :: string

record LoginResult =
  access_token :: jwt
  user :: LoginUser

text \<open>
  The body of the \<open>try\<close> block of \<open>AuthService.login\<close>, called at time \<open>t\<close>. It only
  reads the table.
\<close>

definition login_try ::
  "Bcrypt \<Rightarrow> Config \<Rightarrow> nat \<Rightarrow> db \<Rightarrow> string \<Rightarrow> string \<Rightarrow> exception + LoginResult" where
  "login_try bc c t d e pw =
     (case findUnique_email d e of
        None \<Rightarrow> Inl (UnauthorizedException ''User not found'')
      | Some u \<Rightarrow>
          if \<not> compare bc pw (User.password u)
          then Inl (UnauthorizedException ''Password is incorrect'')
          else
            (case JWT_SECRET c of
               None \<Rightarrow> Inl (InternalServerErrorException ''JWT configuration error'')
             | Some secret' \<Rightarrow>
                 if secret' = []
                 then Inl (InternalServerErrorException ''JWT configuration error'')
                 else Inr \<lparr>access_token =
                             jwt_sign (User.id' u) (User.email u) secret' seven_days t,
                           LoginResult.user =
                             \<lparr>LoginUser.id' = User.id' u,
                              LoginUser.email = User.email u\<rparr>\<rparr>))"

text \<open>
  \<open>AuthService.login\<close>: the \<open>catch\<close> clause rethrows \<open>UnauthorizedException\<close> and
  \<open>InternalServerErrorException\<close> and replaces every other error.
\<close>

definition login ::
  "Bcrypt \<Rightarrow> Config \<Rightarrow> nat \<Rightarrow> db \<Rightarrow> string \<Rightarrow> string \<Rightarrow> exception + LoginResult" where
  "login bc c t d e pw =
     (case login_try bc c t d e pw of
        Inl error \<Rightarrow>
          (case error of
             UnauthorizedException m \<Rightarrow> Inl error
           | InternalServerErrorException m \<Rightarrow> Inl error
           | _ \<Rightarrow> Inl (InternalServerErrorException ''Failed to login''))
      | Inr r \<Rightarrow> Inr r)"

text \<open>\<open>AuthService.validateUser\<close>, the spec's \<open>fetchCurrentUser\<close>.\<close>

definition validateUser :: "db \<Rightarrow> string \<Rightarrow> exception + PublicUser" where
  "validateUser d userId =
     (case findUnique_id d userId of
        None \<Rightarrow> Inl (UnauthorizedException ''User not found'')
      | Some u \<Rightarrow> Inr (select_public u))"

section \<open>The route guard\<close>

text \<open>
  A request, as far as the guard reads it: the \<open>Authorization\<close> header, absent, of the
  form \<open>Bearer <token>\<close>, or anything else.
\<close>

datatype auth_header = Bearer jwt | OtherScheme string

record Request =
  authorization :: "auth_header option"

text \<open>\<open>ExtractJwt.fromAuthHeaderAsBearerToken()\<close>.\<close>

definition fromAuthHeaderAsBearerToken :: "Request \<Rightarrow> jwt option" where
  "fromAuthHeaderAsBearerToken req =
     (case authorization req of
        Some (Bearer tok) \<Rightarrow> Some tok
      | _ \<Rightarrow> None)"

text \<open>\<open>JwtStrategy.validate\<close>: the verified payload becomes \<open>req.user\<close>.\<close>

definition validate :: "JwtPayload \<Rightarrow> JwtPayload" where
  "validate payload = payload"

text \<open>
  The passport-jwt strategy at time \<open>t\<close>, with the strategy's \<open>secretOrKey\<close>. The
  result is the triple \<open>(err, user, info)\<close> that passport hands to its callback: a
  missing token and a token that does not verify are failures (\<open>err\<close> and \<open>user\<close>
  both absent, \<open>info\<close> the reason), a verified token gives \<open>validate\<close>'s user.
\<close>

definition authenticate ::
  "string \<Rightarrow> nat \<Rightarrow> Request \<Rightarrow> exception option \<times> JwtPayload option \<times> exception option" where
  "authenticate key t req =
     (case fromAuthHeaderAsBearerToken req of
        None \<Rightarrow> (None, None, Some (Error ''No auth token''))
      | Some tok \<Rightarrow>
          (case jwt_verify tok key t of
             Inl jwt_err \<Rightarrow> (None, None, Some jwt_err)
           | Inr payload \<Rightarrow> (None, Some (validate payload), None)))"

text \<open>\<open>JwtAuthGuard.handleRequest(err, user)\<close>.\<close>

definition handleRequest :: "exception option \<Rightarrow> JwtPayload option \<Rightarrow> exception + JwtPayload" where
  "handleRequest err u =
     (case err of
        Some e \<Rightarrow> Inl e
      | None \<Rightarrow>
          (case u of
             None \<Rightarrow> Inl (UnauthorizedException ''Invalid or expired token'')
           | Some v \<Rightarrow> Inr v))"

text \<open>
  \<open>JwtAuthGuard.canActivate\<close>: the parent class runs the strategy and passes its
  outcome to \<open>handleRequest\<close>; what that returns is attached to the request as
  \<open>req.user\<close>.
\<close>

definition canActivate :: "string \<Rightarrow> nat \<Rightarrow> Request \<Rightarrow> exception + JwtPayload" where
  "canActivate key t req =
     (case authenticate key t req of (err, u, info) \<Rightarrow> handleRequest err u)"

text \<open>
  \<open>@UseGuards(JwtAuthGuard)\<close> on a handler: the handler runs, on \<open>req.user\<close>, only if
  the guard lets the request through.
\<close>

definition UseGuards_JwtAuthGuard ::
  "string \<Rightarrow> nat \<Rightarrow> (JwtPayload \<Rightarrow> exception + 'a) \<Rightarrow> Request \<Rightarrow> exception + 'a" where
  "UseGuards_JwtAuthGuard key t handler req =
     (case canActivate key t req of
        Inl e \<Rightarrow> Inl e
      | Inr req_user \<Rightarrow> handler req_user)"

section \<open>The auth controller\<close>

text \<open>\<open>AuthController.getCurrentUser\<close>: \<open>this.authService.validateUser(req.user.sub)\<close>.\<close>

definition getCurrentUser :: "db \<Rightarrow> JwtPayload \<Rightarrow> exception + PublicUser" where
  "getCurrentUser d req_user = validateUser d (JwtPayload.sub req_user)"

text \<open>The route \<open>GET /auth/me\<close>: \<open>getCurrentUser\<close> behind the guard.\<close>

definition GET_auth_me :: "string \<Rightarrow> nat \<Rightarrow> db \<Rightarrow> Request \<Rightarrow> exception + PublicUser" where
  "GET_auth_me key t d req = UseGuards_JwtAuthGuard key t (getCurrentUser d) req"


section \<open>Example data\<close>

text \<open>
  Concrete inputs on which the model is run: one stored account, whose password is
  \<open>password123\<close>; what a first registration of that account takes from its
  surroundings; and a configuration with a signing secret.
\<close>

definition example_user :: User where
  "example_user =
     \<lparr>User.id' = ''clx123abc'', User.email = ''a@b.com'',
      User.password = hash symbolic_bcrypt ''password123'' saltRounds ''N9qo8uLOickgx2ZMRZoMye'',
      User.createdAt = 1700000000\<rparr>"

definition example_env :: RegisterEnv where
  "example_env =
     \<lparr>salt = ''N9qo8uLOickgx2ZMRZoMye'', concurrent = [], cuid = ''clx123abc'',
      now = 1700000000\<rparr>"

definition example_config :: Config where
  "example_config = \<lparr>JWT_SECRET = Some ''change-me-dev''\<rparr>"

text \<open>The application that \<open>bootstrap\<close> builds from that configuration.\<close>

definition example_app :: App where
  "example_app =
     \<lparr>config = example_config,
      jwtOptions = \<lparr>secret = ''change-me-dev'', expiresIn = seven_days\<rparr>,
      secretOrKey = ''change-me-dev''\<rparr>"

text \<open>The same account with its password hashed under another salt.\<close>

definition example_user_rehashed :: User where
  "example_user_rehashed =
     example_user\<lparr>User.password := hash symbolic_bcrypt ''password123'' saltRounds ''otherSalt''\<rparr>"

text \<open>
  A race: while a registration of \<open>a@b.com\<close> is between its lookup and its insert,
  another request commits an account with the same email.
\<close>

definition example_rival :: User where
  "example_rival =
     \<lparr>User.id' = ''clx456def'', User.email = ''a@b.com'',
      User.password = hash symbolic_bcrypt ''hunter2hunter2'' saltRounds ''rivalSalt'',
      User.createdAt = 1700000000\<rparr>"

definition example_race :: RegisterEnv where
  "example_race = example_env\<lparr>concurrent := [example_rival]\<rparr>"

section \<open>Lookups\<close>

lemma findUnique_email_append:
  "findUnique_email (xs @ ys) e =
     (case findUnique_email xs e of Some u \<Rightarrow> Some u | None \<Rightarrow> findUnique_email ys e)"
  unfolding findUnique_email_def by (induction xs) auto

lemma findUnique_id_Some: "findUnique_id d i = Some u \<Longrightarrow> User.id' u = i \<and> u \<in> set d"
  unfolding findUnique_id_def by (auto simp: find_Some_iff)

lemma findUnique_id_None: "findUnique_id d i = None \<longleftrightarrow> i \<notin> User.id' ` set d"
  unfolding findUnique_id_def by (auto simp: find_None_iff)

lemma findUnique_email_last:
  "findUnique_email d e = None \<Longrightarrow> User.email u = e \<Longrightarrow> findUnique_email (d @ [u]) e = Some u"
  by (simp add: findUnique_email_append) (simp add: findUnique_email_def)

lemma findUnique_email_prefix:
  "findUnique_email xs e = Some u \<Longrightarrow> findUnique_email (xs @ ys) e = Some u"
  by (simp add: findUnique_email_append)

lemma example_findUnique_email [simp]:
  "findUnique_email [example_user] e = (if e = ''a@b.com'' then Some example_user else None)"
  by (simp add: findUnique_email_def example_user_def)

lemma example_compare [simp]:
  "compare symbolic_bcrypt pw (User.password example_user) = (pw = ''password123'')"
  by (auto simp: symbolic_bcrypt_def example_user_def)

section \<open>The outcomes of register and login\<close>

text \<open>
  A call of \<open>register\<close> ends in one of three ways: the lookup finds the email; the
  lookup finds nothing but the insert violates a uniqueness constraint; the row is
  inserted.
\<close>

lemma register_conflict:
  "findUnique_email d e = Some u \<Longrightarrow>
   register bc env d e pw = (Inl (ConflictException ''User with this email already exists''), d)"
  by (simp add: register_def register_try_def)

lemma register_rejected:
  "findUnique_email d e = None \<Longrightarrow>
   findUnique_email (d @ concurrent env) e \<noteq> None \<or>
     findUnique_id (d @ concurrent env) (cuid env) \<noteq> None \<Longrightarrow>
   register bc env d e pw =
     (Inl (InternalServerErrorException ''Failed to register user''), d @ concurrent env)"
  by (auto simp: register_def register_try_def user_create_def Let_def)

lemma register_created:
  assumes "findUnique_email (d @ concurrent env) e = None"
    and "findUnique_id (d @ concurrent env) (cuid env) = None"
  shows "register bc env d e pw =
     (Inr \<lparr>message = ''User registered successfully'',
           RegisterResult.user =
             \<lparr>PublicUser.id' = cuid env, PublicUser.email = e, PublicUser.createdAt = now env\<rparr>\<rparr>,
      d @ concurrent env @
        [\<lparr>User.id' = cuid env, User.email = e,
          User.password = hash bc pw saltRounds (salt env), User.createdAt = now env\<rparr>])"
proof -
  from assms(1) have "findUnique_email d e = None"
    by (simp add: findUnique_email_append split: option.splits)
  with assms show ?thesis
    by (simp add: register_def register_try_def user_create_def Let_def select_public_def)
qed

lemma register_cases:
  "(\<exists>u. findUnique_email d e = Some u) \<or>
   (findUnique_email d e = None \<and>
      (findUnique_email (d @ concurrent env) e \<noteq> None \<or>
       findUnique_id (d @ concurrent env) (cuid env) \<noteq> None)) \<or>
   (findUnique_email (d @ concurrent env) e = None \<and>
      findUnique_id (d @ concurrent env) (cuid env) = None)"
  by (cases "findUnique_email d e") (auto simp: findUnique_email_append)

lemma login_ok:
  "findUnique_email d e = Some u \<Longrightarrow> compare bc pw (User.password u) \<Longrightarrow>
   JWT_SECRET c = Some k \<Longrightarrow> k \<noteq> [] \<Longrightarrow>
   login bc c t d e pw =
     Inr \<lparr>access_token = jwt_sign (User.id' u) (User.email u) k seven_days t,
          LoginResult.user = \<lparr>LoginUser.id' = User.id' u, LoginUser.email = User.email u\<rparr>\<rparr>"
  by (simp add: login_def login_try_def)

lemma login_Inr:
  assumes "login bc c t d e pw = Inr res"
  shows "\<exists>u k. findUnique_email d e = Some u \<and> compare bc pw (User.password u) \<and>
           JWT_SECRET c = Some k \<and> k \<noteq> [] \<and>
           res = \<lparr>access_token = jwt_sign (User.id' u) (User.email u) k seven_days t,
                  LoginResult.user =
                    \<lparr>LoginUser.id' = User.id' u, LoginUser.email = User.email u\<rparr>\<rparr>"
  using assms by (auto simp: login_def login_try_def split: option.splits if_splits)

lemma login_Inl:
  "login bc c t d e pw = Inl err \<Longrightarrow>
   err \<in> {UnauthorizedException ''User not found'', UnauthorizedException ''Password is incorrect'',
          InternalServerErrorException ''JWT configuration error''}"
  by (auto simp: login_def login_try_def split: option.splits if_splits)

lemma example_login:
  "login symbolic_bcrypt example_config 1700000060 [example_user] ''a@b.com'' ''password123'' =
     Inr \<lparr>access_token =
            Signed \<lparr>JwtPayload.sub = ''clx123abc'', JwtPayload.email = ''a@b.com'',
                    JwtPayload.iat = 1700000060, JwtPayload.exp = 1700604860\<rparr> ''change-me-dev'',
          LoginResult.user = \<lparr>LoginUser.id' = ''clx123abc'', LoginUser.email = ''a@b.com''\<rparr>\<rparr>"
  by (simp add: login_def login_try_def example_config_def jwt_sign_def seven_days_def)
    (simp add: example_user_def)

lemma example_register:
  "register symbolic_bcrypt example_env [] ''a@b.com'' ''password123'' =
     (Inr \<lparr>message = ''User registered successfully'',
           RegisterResult.user =
             \<lparr>PublicUser.id' = ''clx123abc'', PublicUser.email = ''a@b.com'',
              PublicUser.createdAt = 1700000000\<rparr>\<rparr>, [example_user])"
  by (simp add: register_def register_try_def user_create_def findUnique_email_def
      findUnique_id_def example_env_def example_user_def select_public_def Let_def)

section \<open>Stores that differ only in the password hashes\<close>

text \<open>
  Two tables hold the same accounts with possibly different hashes when their rows
  have the same public fields, in the same order. The lookups, and with them the
  values the service returns, cannot tell such tables apart.
\<close>

lemma select_public_eq:
  "select_public u = select_public v \<Longrightarrow>
     User.id' u = User.id' v \<and> User.email u = User.email v \<and> User.createdAt u = User.createdAt v"
  by (simp add: select_public_def)

lemma findUnique_email_public:
  "map select_public d1 = map select_public d2 \<Longrightarrow>
   map_option select_public (findUnique_email d1 e) = map_option select_public (findUnique_email d2 e)"
proof (induction d1 arbitrary: d2)
  case Nil
  then show ?case by (simp add: findUnique_email_def)
next
  case (Cons u d1)
  then obtain v d2' where d2: "d2 = v # d2'" and uv: "select_public u = select_public v"
    and rest: "map select_public d1 = map select_public d2'"
    by (cases d2) auto
  from Cons.IH [OF rest] uv show ?case
    by (auto simp: d2 findUnique_email_def dest: select_public_eq)
qed

lemma findUnique_id_public:
  "map select_public d1 = map select_public d2 \<Longrightarrow>
   map_option select_public (findUnique_id d1 i) = map_option select_public (findUnique_id d2 i)"
proof (induction d1 arbitrary: d2)
  case Nil
  then show ?case by (simp add: findUnique_id_def)
next
  case (Cons u d1)
  then obtain v d2' where d2: "d2 = v # d2'" and uv: "select_public u = select_public v"
    and rest: "map select_public d1 = map select_public d2'"
    by (cases d2) auto
  from Cons.IH [OF rest] uv show ?case
    by (auto simp: d2 findUnique_id_def dest: select_public_eq)
qed

lemma public_None:
  "map_option select_public x = map_option select_public y \<Longrightarrow> (x = None) = (y = None)"
  by (cases x; cases y) auto

lemma register_fst_public:
  assumes "map select_public d1 = map select_public d2"
    and "map select_public c1 = map select_public c2"
  shows "fst (register bc1 (env\<lparr>concurrent := c1\<rparr>) d1 e pw) =
         fst (register bc2 (env\<lparr>concurrent := c2, salt := s2\<rparr>) d2 e pw)"
proof -
  let ?env1 = "env\<lparr>concurrent := c1\<rparr>"
  have app: "map select_public (d1 @ c1) = map select_public (d2 @ c2)"
    using assms by simp
  have e0: "(findUnique_email d1 e = None) = (findUnique_email d2 e = None)"
    using findUnique_email_public [OF assms(1)] by (rule public_None)
  have e1: "(findUnique_email (d1 @ c1) e = None) = (findUnique_email (d2 @ c2) e = None)"
    using findUnique_email_public [OF app] by (rule public_None)
  have i1: "(findUnique_id (d1 @ c1) (cuid env) = None) =
            (findUnique_id (d2 @ c2) (cuid env) = None)"
    using findUnique_id_public [OF app] by (rule public_None)
  consider (dup) u where "findUnique_email d1 e = Some u"
    | (late) "findUnique_email d1 e = None"
        "findUnique_email (d1 @ c1) e \<noteq> None \<or> findUnique_id (d1 @ c1) (cuid env) \<noteq> None"
    | (new) "findUnique_email (d1 @ c1) e = None" "findUnique_id (d1 @ c1) (cuid env) = None"
    using register_cases [of d1 e ?env1] by auto
  then show ?thesis
  proof cases
    case dup
    with e0 obtain v where "findUnique_email d2 e = Some v" by auto
    with dup show ?thesis by (simp add: register_conflict)
  next
    case late
    with e0 e1 i1 have "findUnique_email d2 e = None"
      "findUnique_email (d2 @ c2) e \<noteq> None \<or> findUnique_id (d2 @ c2) (cuid env) \<noteq> None"
      by auto
    with late show ?thesis by (simp add: register_rejected)
  next
    case new
    with e1 i1 have "findUnique_email (d2 @ c2) e = None"
      "findUnique_id (d2 @ c2) (cuid env) = None"
      by auto
    with new show ?thesis by (simp add: register_created)
  qed
qed

lemma validateUser_public:
  assumes "map select_public d1 = map select_public d2"
  shows "validateUser d1 i = validateUser d2 i"
  using findUnique_id_public [OF assms, of i]
  by (cases "findUnique_id d1 i"; cases "findUnique_id d2 i") (simp_all add: validateUser_def)

lemma login_public:
  assumes "map select_public d1 = map select_public d2"
    and "login bc1 c t d1 e pw = Inr r1" and "login bc2 c t d2 e pw = Inr r2"
  shows "r1 = r2"
proof -
  from login_Inr [OF assms(2)] obtain u k where u: "findUnique_email d1 e = Some u"
    "JWT_SECRET c = Some k"
    "r1 = \<lparr>access_token = jwt_sign (User.id' u) (User.email u) k seven_days t,
           LoginResult.user = \<lparr>LoginUser.id' = User.id' u, LoginUser.email = User.email u\<rparr>\<rparr>"
    by blast
  from login_Inr [OF assms(3)] obtain v k' where v: "findUnique_email d2 e = Some v"
    "JWT_SECRET c = Some k'"
    "r2 = \<lparr>access_token = jwt_sign (User.id' v) (User.email v) k' seven_days t,
           LoginResult.user = \<lparr>LoginUser.id' = User.id' v, LoginUser.email = User.email v\<rparr>\<rparr>"
    by blast
  from findUnique_email_public [OF assms(1), of e] u(1) v(1)
  have "select_public u = select_public v" by simp
  then have "User.id' u = User.id' v" "User.email u = User.email v"
    by (auto dest: select_public_eq)
  with u v show ?thesis by simp
qed

section \<open>Login failures\<close>

text \<open>
  Claim C1: login with a stored account's email and a wrong password, and login with an
  email that is not in the store, return the same error kind and the same message.

  The code does not do this. On the store that holds the one account \<open>a@b.com\<close>, a
  wrong password for \<open>a@b.com\<close> and any password for \<open>nobody@b.com\<close> are both
  rejected with \<open>UnauthorizedException\<close>, but the first with the message
  \<open>Password is incorrect\<close> and the second with \<open>User not found\<close>.
\<close>

theorem login_failure_messages_differ:
  "login symbolic_bcrypt example_config 1700000060 [example_user] ''a@b.com'' ''wrong-password''
     = Inl (UnauthorizedException ''Password is incorrect'') \<and>
   login symbolic_bcrypt example_config 1700000060 [example_user] ''nobody@b.com'' ''wrong-password''
     = Inl (UnauthorizedException ''User not found'')"
  by (simp add: login_def login_try_def)

section \<open>Register, then login\<close>

text \<open>
  Claim C2: for every valid email and password not yet registered, \<open>register\<close> and then
  \<open>login\<close> with the same email and password succeed, and the claims of the returned
  token decode to the id of the account that \<open>register\<close> created.

  The service does not look at the shape of its arguments, so the statement is for
  every email and password, those that pass the request validation among them. Not yet
  registered means that neither the table nor a concurrent request holds the email;
  the identifier the database generates is fresh; bcrypt accepts the password against
  the hash it has just made of it; and a signing secret is configured. The token is
  verified with that secret at the time of the login.
\<close>

theorem register_then_login:
  assumes "findUnique_email (d @ concurrent env) e = None"
    and "findUnique_id (d @ concurrent env) (cuid env) = None"
    and "compare bc pw (hash bc pw saltRounds (salt env))"
    and "JWT_SECRET c = Some k" and "k \<noteq> []"
  shows "\<exists>r d' res p.
           register bc env d e pw = (Inr r, d') \<and>
           login bc c t d' e pw = Inr res \<and>
           jwt_verify (access_token res) k t = Inr p \<and>
           JwtPayload.sub p = PublicUser.id' (RegisterResult.user r)"
proof -
  let ?u = "\<lparr>User.id' = cuid env, User.email = e,
             User.password = hash bc pw saltRounds (salt env), User.createdAt = now env\<rparr>"
  let ?d' = "d @ concurrent env @ [?u]"
  let ?r = "\<lparr>message = ''User registered successfully'',
             RegisterResult.user =
               \<lparr>PublicUser.id' = cuid env, PublicUser.email = e,
                PublicUser.createdAt = now env\<rparr>\<rparr>"
  let ?res = "\<lparr>access_token = jwt_sign (User.id' ?u) (User.email ?u) k seven_days t,
               LoginResult.user =
                 \<lparr>LoginUser.id' = User.id' ?u, LoginUser.email = User.email ?u\<rparr>\<rparr>"
  let ?p = "\<lparr>JwtPayload.sub = cuid env, JwtPayload.email = e, JwtPayload.iat = t,
             JwtPayload.exp = t + seven_days\<rparr>"
  have reg: "register bc env d e pw = (Inr ?r, ?d')"
    using assms(1,2) by (rule register_created)
  have "findUnique_email ((d @ concurrent env) @ [?u]) e = Some ?u"
    using assms(1) by (rule findUnique_email_last) simp
  then have found: "findUnique_email ?d' e = Some ?u" by simp
  have log: "login bc c t ?d' e pw = Inr ?res"
    using found _ assms(4,5) by (rule login_ok) (simp add: assms(3))
  have ver: "jwt_verify (access_token ?res) k t = Inr ?p"
    by (simp add: jwt_verify_def jwt_sign_def seven_days_def)
  have "JwtPayload.sub ?p = PublicUser.id' (RegisterResult.user ?r)" by simp
  with reg log ver show ?thesis by blast
qed

text \<open>
  The scenario of the specification: \<open>a@b.com\<close> registers with \<open>password123\<close> on an
  empty store and logs in a minute later.
\<close>

theorem register_then_login_witness:
  "findUnique_email ([] @ concurrent example_env) ''a@b.com'' = None \<and>
   findUnique_id ([] @ concurrent example_env) (cuid example_env) = None \<and>
   compare symbolic_bcrypt ''password123''
     (hash symbolic_bcrypt ''password123'' saltRounds (salt example_env)) \<and>
   JWT_SECRET example_config = Some ''change-me-dev'' \<and>
   (\<exists>r d' res p.
      register symbolic_bcrypt example_env [] ''a@b.com'' ''password123'' = (Inr r, d') \<and>
      login symbolic_bcrypt example_config 1700000060 d' ''a@b.com'' ''password123'' = Inr res \<and>
      jwt_verify (access_token res) ''change-me-dev'' 1700000060 = Inr p \<and>
      JwtPayload.sub p = PublicUser.id' (RegisterResult.user r))"
proof -
  have h1: "findUnique_email ([] @ concurrent example_env) ''a@b.com'' = None"
    by (simp add: findUnique_email_def example_env_def)
  have h2: "findUnique_id ([] @ concurrent example_env) (cuid example_env) = None"
    by (simp add: findUnique_id_def example_env_def)
  have h3: "compare symbolic_bcrypt ''password123''
     (hash symbolic_bcrypt ''password123'' saltRounds (salt example_env))"
    by (simp add: symbolic_bcrypt_def example_env_def)
  have h4: "JWT_SECRET example_config = Some ''change-me-dev''"
    by (simp add: example_config_def)
  have h5: "''change-me-dev'' \<noteq> []" by simp
  from h1 h2 h3 h4 register_then_login [OF h1 h2 h3 h4 h5, of 1700000060]
  show ?thesis by blast
qed

section \<open>Registering an email twice\<close>

text \<open>
  Claim C3: after a successful \<open>register\<close> with an email, a second \<open>register\<close> with
  the same email fails with the duplicate-account condition (\<open>ConflictException\<close>),
  whether or not the second password equals the first.

  The second call may use any password, any hasher and any surroundings, and may come
  after other accounts were added (\<open>later\<close>); it leaves the table as it finds it.
\<close>

theorem register_twice_conflict:
  assumes "register bc env d e pw = (Inr r, d')"
  shows "register bc' env' (d' @ later) e pw' =
           (Inl (ConflictException ''User with this email already exists''), d' @ later)"
proof -
  let ?u = "\<lparr>User.id' = cuid env, User.email = e,
             User.password = hash bc pw saltRounds (salt env), User.createdAt = now env\<rparr>"
  consider (dup) u where "findUnique_email d e = Some u"
    | (late) "findUnique_email d e = None"
        "findUnique_email (d @ concurrent env) e \<noteq> None \<or>
         findUnique_id (d @ concurrent env) (cuid env) \<noteq> None"
    | (new) "findUnique_email (d @ concurrent env) e = None"
        "findUnique_id (d @ concurrent env) (cuid env) = None"
    using register_cases [of d e env] by auto
  then show ?thesis
  proof cases
    case dup
    with assms show ?thesis by (simp add: register_conflict)
  next
    case late
    with assms show ?thesis by (simp add: register_rejected)
  next
    case new
    with assms have d': "d' = (d @ concurrent env) @ [?u]"
      by (simp add: register_created)
    have "findUnique_email ((d @ concurrent env) @ [?u]) e = Some ?u"
      using new(1) by (rule findUnique_email_last) simp
    then have "findUnique_email (d' @ later) e = Some ?u"
      unfolding d' by (rule findUnique_email_prefix)
    then show ?thesis by (rule register_conflict)
  qed
qed

text \<open>The account of the scenario registers, then registers again with another password.\<close>

theorem register_twice_conflict_witness:
  "register symbolic_bcrypt example_env [] ''a@b.com'' ''password123'' =
     (Inr \<lparr>message = ''User registered successfully'',
           RegisterResult.user =
             \<lparr>PublicUser.id' = ''clx123abc'', PublicUser.email = ''a@b.com'',
              PublicUser.createdAt = 1700000000\<rparr>\<rparr>, [example_user]) \<and>
   register symbolic_bcrypt (example_env\<lparr>cuid := ''clx456def''\<rparr>) ([example_user] @ [])
       ''a@b.com'' ''another-password'' =
     (Inl (ConflictException ''User with this email already exists''), [example_user] @ [])"
  using example_register register_twice_conflict [OF example_register]
  by blast

section \<open>The password hash stays in the store\<close>

text \<open>
  Claim C4: for every input and every state of the credential store, the value that
  \<open>register\<close>, \<open>login\<close> and \<open>validateUser\<close> return to the caller never contains the
  stored password hash.

  Stated as independence: take two stores that hold the same accounts and differ at
  most in the password hashes. Then \<open>register\<close> answers the same on both, whatever the
  hasher and the salt of each call; \<open>validateUser\<close> answers the same on both; two
  successful logins return the same token and the same user; and a failed login
  throws one of three fixed exceptions. The result types have no field for the hash:
  \<open>register\<close> and \<open>validateUser\<close> return \<open>id\<close>, \<open>email\<close> and \<open>createdAt\<close>, \<open>login\<close> the
  token with \<open>id\<close> and \<open>email\<close>.
\<close>

theorem password_hash_not_in_responses:
  assumes "map select_public d1 = map select_public d2"
  shows "fst (register bc1 env d1 e pw) = fst (register bc2 (env\<lparr>salt := s2\<rparr>) d2 e pw) \<and>
         validateUser d1 i = validateUser d2 i \<and>
         (login bc1 c t d1 e pw = Inr r1 \<and> login bc2 c t d2 e pw = Inr r2 \<longrightarrow> r1 = r2) \<and>
         (login bc1 c t d1 e pw = Inl err \<longrightarrow>
            err \<in> {UnauthorizedException ''User not found'',
                   UnauthorizedException ''Password is incorrect'',
                   InternalServerErrorException ''JWT configuration error''})"
proof -
  have "fst (register bc1 (env\<lparr>concurrent := concurrent env\<rparr>) d1 e pw) =
        fst (register bc2 (env\<lparr>concurrent := concurrent env, salt := s2\<rparr>) d2 e pw)"
    using assms by (rule register_fst_public) simp
  then have reg: "fst (register bc1 env d1 e pw) = fst (register bc2 (env\<lparr>salt := s2\<rparr>) d2 e pw)"
    by simp
  have val: "validateUser d1 i = validateUser d2 i"
    using assms by (rule validateUser_public)
  have ok: "login bc1 c t d1 e pw = Inr r1 \<and> login bc2 c t d2 e pw = Inr r2 \<longrightarrow> r1 = r2"
    using login_public [OF assms] by blast
  have err: "login bc1 c t d1 e pw = Inl err \<longrightarrow>
            err \<in> {UnauthorizedException ''User not found'',
                   UnauthorizedException ''Password is incorrect'',
                   InternalServerErrorException ''JWT configuration error''}"
    using login_Inl by blast
  from reg val ok err show ?thesis by blast
qed

text \<open>
  The stored account and the same account hashed under another salt: the two stores
  differ, and \<open>validateUser\<close> and a successful \<open>login\<close> answer the same on both.
\<close>

theorem password_hash_not_in_responses_witness:
  "map select_public [example_user] = map select_public [example_user_rehashed] \<and>
   [example_user] \<noteq> [example_user_rehashed] \<and>
   validateUser [example_user] ''clx123abc'' = validateUser [example_user_rehashed] ''clx123abc'' \<and>
   login symbolic_bcrypt example_config 1700000060 [example_user] ''a@b.com'' ''password123'' =
   login symbolic_bcrypt example_config 1700000060 [example_user_rehashed] ''a@b.com'' ''password123''"
proof -
  let ?r = "\<lparr>access_token =
              Signed \<lparr>JwtPayload.sub = ''clx123abc'', JwtPayload.email = ''a@b.com'',
                      JwtPayload.iat = 1700000060, JwtPayload.exp = 1700604860\<rparr> ''change-me-dev'',
             LoginResult.user = \<lparr>LoginUser.id' = ''clx123abc'', LoginUser.email = ''a@b.com''\<rparr>\<rparr>"
  have pub: "map select_public [example_user] = map select_public [example_user_rehashed]"
    by (simp add: select_public_def example_user_rehashed_def)
  have diff: "[example_user] \<noteq> [example_user_rehashed]"
    by (simp add: example_user_rehashed_def example_user_def symbolic_bcrypt_def)
  have l2: "login symbolic_bcrypt example_config 1700000060 [example_user_rehashed] ''a@b.com''
      ''password123'' = Inr ?r"
    by (simp add: login_def login_try_def example_config_def findUnique_email_def
        example_user_rehashed_def example_user_def symbolic_bcrypt_def jwt_sign_def
        seven_days_def)
  from password_hash_not_in_responses [OF pub, of symbolic_bcrypt example_env "''a@b.com''"
      "''password123''" symbolic_bcrypt "''otherSalt''" "''clx123abc''" example_config
      1700000060 ?r ?r]
    pub diff example_login l2
  show ?thesis by simp
qed

section \<open>The guard rejects what does not verify\<close>

text \<open>
  Claim C5: on a guarded route, every kind of token-verification failure (no
  Authorization header, a malformed token, an invalid signature, an expired token) is
  collapsed by the guard to a single Unauthorized (401) rejection, and the request
  never reaches the handler; in particular \<open>GET /auth/me\<close> never returns 200 then.

  The hypothesis lists the failures: no header, a header that is not a bearer token, a
  malformed token, a token signed with another key, a token at or past its expiry. The
  rejection is the same for each and the same for every handler behind the guard, so
  the handler has no part in the response.
\<close>

theorem guard_rejects_unverified:
  assumes "authorization req = None \<or>
           authorization req = Some (OtherScheme s) \<or>
           authorization req = Some (Bearer (Malformed m)) \<or>
           (authorization req = Some (Bearer (Signed p k)) \<and> (k \<noteq> key \<or> JwtPayload.exp p \<le> t))"
  shows "UseGuards_JwtAuthGuard key t handler req =
           Inl (UnauthorizedException ''Invalid or expired token'') \<and>
         GET_auth_me key t d req = Inl (UnauthorizedException ''Invalid or expired token'') \<and>
         http_status 200 (GET_auth_me key t d req) = 401"
proof -
  have "canActivate key t req = Inl (UnauthorizedException ''Invalid or expired token'')"
    using assms
    by (auto simp: canActivate_def authenticate_def fromAuthHeaderAsBearerToken_def
        jwt_verify_def handleRequest_def)
  then show ?thesis
    by (simp add: UseGuards_JwtAuthGuard_def GET_auth_me_def http_status_def)
qed

text \<open>
  A token issued at a login is rejected at the second it expires, seven days later;
  one second earlier the same request reaches the handler and returns the account.
\<close>

theorem guard_rejects_unverified_witness:
  "JwtPayload.exp \<lparr>JwtPayload.sub = ''clx123abc'', JwtPayload.email = ''a@b.com'',
                   JwtPayload.iat = 1700000060, JwtPayload.exp = 1700604860\<rparr> \<le> 1700604860 \<and>
   GET_auth_me ''change-me-dev'' 1700604860 [example_user]
     \<lparr>authorization = Some (Bearer (jwt_sign ''clx123abc'' ''a@b.com'' ''change-me-dev''
        seven_days 1700000060))\<rparr> = Inl (UnauthorizedException ''Invalid or expired token'') \<and>
   GET_auth_me ''change-me-dev'' 1700604859 [example_user]
     \<lparr>authorization = Some (Bearer (jwt_sign ''clx123abc'' ''a@b.com'' ''change-me-dev''
        seven_days 1700000060))\<rparr> =
     Inr \<lparr>PublicUser.id' = ''clx123abc'', PublicUser.email = ''a@b.com'',
          PublicUser.createdAt = 1700000000\<rparr>"
proof -
  let ?p = "\<lparr>JwtPayload.sub = ''clx123abc'', JwtPayload.email = ''a@b.com'',
             JwtPayload.iat = 1700000060, JwtPayload.exp = 1700604860\<rparr>"
  let ?req = "\<lparr>authorization = Some (Bearer (Signed ?p ''change-me-dev''))\<rparr>"
  have tok: "jwt_sign ''clx123abc'' ''a@b.com'' ''change-me-dev'' seven_days 1700000060 =
      Signed ?p ''change-me-dev''"
    by (simp add: jwt_sign_def seven_days_def)
  have expired: "JwtPayload.exp ?p \<le> 1700604860" by simp
  have ok: "GET_auth_me ''change-me-dev'' 1700604859 [example_user] ?req =
     Inr \<lparr>PublicUser.id' = ''clx123abc'', PublicUser.email = ''a@b.com'',
          PublicUser.createdAt = 1700000000\<rparr>"
    by (simp add: GET_auth_me_def UseGuards_JwtAuthGuard_def canActivate_def authenticate_def
        fromAuthHeaderAsBearerToken_def jwt_verify_def handleRequest_def validate_def
        getCurrentUser_def validateUser_def findUnique_id_def example_user_def select_public_def)
  from guard_rejects_unverified [of ?req "''''" "''''" ?p "''change-me-dev''" "''change-me-dev''"
      1700604860 "getCurrentUser [example_user]" "[example_user]"] expired ok
  show ?thesis by (simp add: tok)
qed

section \<open>The signing secret is checked at start-up\<close>

text \<open>
  Claim C6: if no signing secret is configured, the process fails at start-up, and no
  auth operation reaches a state where it signs or verifies a token without a secret;
  the absence of the secret is never first detected inside an operation such as
  \<open>login\<close>.

  Without a secret \<open>bootstrap\<close> ends in the error of the module factory and there is no
  application. An application that did start runs on the configuration that was
  checked: it has a non-empty secret, which is the key of the strategy and of the JWT
  module; \<open>login\<close> never ends in its own configuration error; and every token it
  issues is signed with that secret.
\<close>

theorem secret_checked_at_startup:
  "(no_secret c \<longrightarrow>
      bootstrap c = Inl (Error ''JWT_SECRET must be defined in environment variables'')) \<and>
   (bootstrap c = Inr app \<longrightarrow>
      config app = c \<and> \<not> no_secret (config app) \<and>
      JWT_SECRET (config app) = Some (secretOrKey app) \<and> secretOrKey app \<noteq> [] \<and>
      secret (jwtOptions app) = secretOrKey app \<and>
      login bc (config app) t d e pw \<noteq> Inl (InternalServerErrorException ''JWT configuration error'') \<and>
      (login bc (config app) t d e pw = Inr res \<longrightarrow>
         (\<exists>p. access_token res = Signed p (secretOrKey app))))"
proof (intro conjI impI)
  assume "no_secret c"
  then show "bootstrap c = Inl (Error ''JWT_SECRET must be defined in environment variables'')"
    by (auto simp: no_secret_def bootstrap_def useFactory_def split: option.splits)
next
  assume b: "bootstrap c = Inr app"
  then obtain k where k: "JWT_SECRET c = Some k" "k \<noteq> []"
    and app: "app = \<lparr>config = c, jwtOptions = \<lparr>secret = k, expiresIn = seven_days\<rparr>,
                     secretOrKey = k\<rparr>"
    by (auto simp: bootstrap_def useFactory_def JwtStrategy_constructor_def
        split: option.splits if_splits)
  show "config app = c" by (simp add: app)
  show "\<not> no_secret (config app)" by (simp add: app no_secret_def k)
  show "JWT_SECRET (config app) = Some (secretOrKey app)" by (simp add: app k)
  show "secretOrKey app \<noteq> []" by (simp add: app k)
  show "secret (jwtOptions app) = secretOrKey app" by (simp add: app)
  show "login bc (config app) t d e pw \<noteq>
      Inl (InternalServerErrorException ''JWT configuration error'')"
    by (auto simp: app k login_def login_try_def split: option.splits)
  show "\<exists>p. access_token res = Signed p (secretOrKey app)"
    if "login bc (config app) t d e pw = Inr res"
    using login_Inr [OF that] by (auto simp: app k jwt_sign_def)
qed

text \<open>
  Start-up without \<open>JWT_SECRET\<close> fails; start-up with it gives the example
  application, whose login signs with the configured secret.
\<close>

theorem secret_checked_at_startup_witness:
  "no_secret \<lparr>JWT_SECRET = None\<rparr> \<and>
   bootstrap \<lparr>JWT_SECRET = None\<rparr> =
     Inl (Error ''JWT_SECRET must be defined in environment variables'') \<and>
   bootstrap example_config = Inr example_app \<and>
   login symbolic_bcrypt (config example_app) 1700000060 [example_user] ''a@b.com'' ''password123''
     = Inr \<lparr>access_token =
              Signed \<lparr>JwtPayload.sub = ''clx123abc'', JwtPayload.email = ''a@b.com'',
                      JwtPayload.iat = 1700000060, JwtPayload.exp = 1700604860\<rparr>
                (secretOrKey example_app),
            LoginResult.user = \<lparr>LoginUser.id' = ''clx123abc'', LoginUser.email = ''a@b.com''\<rparr>\<rparr>"
proof -
  let ?res = "\<lparr>access_token =
              Signed \<lparr>JwtPayload.sub = ''clx123abc'', JwtPayload.email = ''a@b.com'',
                      JwtPayload.iat = 1700000060, JwtPayload.exp = 1700604860\<rparr>
                (secretOrKey example_app),
            LoginResult.user = \<lparr>LoginUser.id' = ''clx123abc'', LoginUser.email = ''a@b.com''\<rparr>\<rparr>"
  have none: "no_secret \<lparr>JWT_SECRET = None\<rparr>"
    by (simp add: no_secret_def)
  have boot: "bootstrap example_config = Inr example_app"
    by (simp add: bootstrap_def useFactory_def JwtStrategy_constructor_def example_config_def
        example_app_def)
  have log: "login symbolic_bcrypt (config example_app) 1700000060 [example_user] ''a@b.com''
      ''password123'' = Inr ?res"
    using example_login by (simp add: example_app_def)
  from secret_checked_at_startup [of "\<lparr>JWT_SECRET = None\<rparr>"] none
  have "bootstrap \<lparr>JWT_SECRET = None\<rparr> =
     Inl (Error ''JWT_SECRET must be defined in environment variables'')"
    by blast
  moreover
  from secret_checked_at_startup [of example_config example_app symbolic_bcrypt 1700000060
      "[example_user]" "''a@b.com''" "''password123''" ?res] boot log
  have "\<exists>p. access_token ?res = Signed p (secretOrKey example_app)"
    by blast
  ultimately show ?thesis using none boot log by blast
qed

section \<open>A duplicate found only by the insert\<close>

text \<open>
  Claim C7, as stated: when the lookup finds no account but the store rejects the
  insert because of its email-uniqueness constraint, \<open>register\<close> fails with the same
  duplicate-account condition as when the lookup finds the duplicate.

  It does not. In the race of the example the lookup finds nothing, the insert is
  rejected with \<open>P2002\<close>, and \<open>register\<close> throws
  \<open>InternalServerErrorException\<close>; had the rival's row been there at the lookup, the
  same call would have thrown \<open>ConflictException\<close>.
\<close>

theorem late_duplicate_counterexample:
  "findUnique_email [] ''a@b.com'' = None \<and>
   user_create ([] @ concurrent example_race) (cuid example_race) (now example_race) ''a@b.com''
       (hash symbolic_bcrypt ''password123'' saltRounds (salt example_race))
     = Inl (PrismaClientKnownRequestError ''P2002'') \<and>
   fst (register symbolic_bcrypt example_race [] ''a@b.com'' ''password123'')
     = Inl (InternalServerErrorException ''Failed to register user'') \<and>
   fst (register symbolic_bcrypt example_env [example_rival] ''a@b.com'' ''password123'')
     = Inl (ConflictException ''User with this email already exists'') \<and>
   fst (register symbolic_bcrypt example_race [] ''a@b.com'' ''password123'')
     \<noteq> fst (register symbolic_bcrypt example_env [example_rival] ''a@b.com'' ''password123'')"
  by (simp add: register_def register_try_def user_create_def findUnique_email_def
      findUnique_id_def example_race_def example_env_def example_rival_def Let_def)

text \<open>
  Claim C7, amended: when the lookup finds no account but the store rejects the insert
  because of its email-uniqueness constraint, \<open>register\<close> fails with
  \<open>InternalServerErrorException\<close> and the message \<open>Failed to register user\<close> (status
  500); the call adds nothing to the table, which is left as the concurrent requests
  made it.
\<close>

theorem late_duplicate_internal_error:
  assumes "findUnique_email d e = None"
    and "findUnique_email (d @ concurrent env) e \<noteq> None"
  shows "register bc env d e pw =
           (Inl (InternalServerErrorException ''Failed to register user''), d @ concurrent env) \<and>
         http_status 201 (fst (register bc env d e pw)) = 500"
  using assms by (simp add: register_rejected http_status_def)

theorem late_duplicate_internal_error_witness:
  "findUnique_email [] ''a@b.com'' = None \<and>
   findUnique_email ([] @ concurrent example_race) ''a@b.com'' \<noteq> None \<and>
   register symbolic_bcrypt example_race [] ''a@b.com'' ''password123'' =
     (Inl (InternalServerErrorException ''Failed to register user''), [example_rival])"
proof -
  have h1: "findUnique_email [] ''a@b.com'' = None"
    by (simp add: findUnique_email_def)
  have h2: "findUnique_email ([] @ concurrent example_race) ''a@b.com'' \<noteq> None"
    by (simp add: findUnique_email_def example_race_def example_rival_def)
  from h1 h2 late_duplicate_internal_error [OF h1 h2, of symbolic_bcrypt "''password123''"]
  show ?thesis by (simp add: example_race_def)
qed

section \<open>What a successful login returns\<close>

text \<open>
  Claim C8: for every successful login, the claims of the issued token are exactly
  the subject, which is the account's id, and the account's email; the token expires 7
  days after it was issued; and the return value is the token together with the
  account's public fields.

  The account is the one stored under the email, the token is signed with the
  configured secret at the time \<open>t\<close> of the call and expires \<open>7 * 24 * 60 * 60\<close>
  seconds later, and the public fields returned with it are the id and the email.
\<close>

theorem login_token_claims:
  assumes "login bc c t d e pw = Inr res"
  shows "\<exists>u k. findUnique_email d e = Some u \<and> JWT_SECRET c = Some k \<and>
           access_token res =
             Signed \<lparr>JwtPayload.sub = User.id' u, JwtPayload.email = User.email u,
                     JwtPayload.iat = t, JwtPayload.exp = t + 7 * 24 * 60 * 60\<rparr> k \<and>
           LoginResult.user res =
             \<lparr>LoginUser.id' = User.id' u, LoginUser.email = User.email u\<rparr>"
  using login_Inr [OF assms] by (auto simp: jwt_sign_def seven_days_def)

theorem login_token_claims_witness:
  "login symbolic_bcrypt example_config 1700000060 [example_user] ''a@b.com'' ''password123'' =
     Inr \<lparr>access_token =
            Signed \<lparr>JwtPayload.sub = ''clx123abc'', JwtPayload.email = ''a@b.com'',
                    JwtPayload.iat = 1700000060, JwtPayload.exp = 1700604860\<rparr> ''change-me-dev'',
          LoginResult.user = \<lparr>LoginUser.id' = ''clx123abc'', LoginUser.email = ''a@b.com''\<rparr>\<rparr> \<and>
   (\<exists>u k. findUnique_email [example_user] ''a@b.com'' = Some u \<and>
      JWT_SECRET example_config = Some k \<and>
      Signed \<lparr>JwtPayload.sub = ''clx123abc'', JwtPayload.email = ''a@b.com'',
              JwtPayload.iat = 1700000060, JwtPayload.exp = 1700604860\<rparr> ''change-me-dev'' =
        Signed \<lparr>JwtPayload.sub = User.id' u, JwtPayload.email = User.email u,
                JwtPayload.iat = 1700000060, JwtPayload.exp = 1700000060 + 7 * 24 * 60 * 60\<rparr> k)"
  using login_token_claims [OF example_login] example_login
  by auto

section \<open>Fetching the current user\<close>

text \<open>
  Claim C9: for every account id, \<open>validateUser\<close> (the specification's
  \<open>fetchCurrentUser\<close>) fails with the not-found condition when no account with that id
  is in the credential store, and returns only the public fields \<open>id\<close>, \<open>email\<close> and
  \<open>createdAt\<close> when one is.

  The not-found condition is the \<open>UnauthorizedException\<close> with the message
  \<open>User not found\<close>.
\<close>

theorem validateUser_result:
  "(i \<notin> User.id' ` set d \<longrightarrow>
      validateUser d i = Inl (UnauthorizedException ''User not found'')) \<and>
   (i \<in> User.id' ` set d \<longrightarrow>
      (\<exists>u \<in> set d. User.id' u = i \<and>
         validateUser d i =
           Inr \<lparr>PublicUser.id' = User.id' u, PublicUser.email = User.email u,
                PublicUser.createdAt = User.createdAt u\<rparr>))"
proof (cases "findUnique_id d i")
  case None
  moreover from None have "i \<notin> User.id' ` set d" by (simp add: findUnique_id_None)
  ultimately show ?thesis by (simp add: validateUser_def)
next
  case (Some u)
  then have "User.id' u = i" "u \<in> set d" by (auto dest: findUnique_id_Some)
  with Some show ?thesis
    by (auto simp: validateUser_def select_public_def)
qed

theorem validateUser_result_witness:
  "''clx999zzz'' \<notin> User.id' ` set [example_user] \<and>
   validateUser [example_user] ''clx999zzz'' = Inl (UnauthorizedException ''User not found'') \<and>
   ''clx123abc'' \<in> User.id' ` set [example_user] \<and>
   validateUser [example_user] ''clx123abc'' =
     Inr \<lparr>PublicUser.id' = ''clx123abc'', PublicUser.email = ''a@b.com'',
          PublicUser.createdAt = 1700000000\<rparr>"
  using validateUser_result [of "''clx999zzz''" "[example_user]"]
    validateUser_result [of "''clx123abc''" "[example_user]"]
  by (simp add: example_user_def)

section \<open>A duplicate registration leaves the store alone\<close>

text \<open>
  Claim C10: whenever \<open>register\<close> fails with the duplicate-account condition (the
  lookup finds an account with the given email), the credential store is left
  unchanged: no account is created, none is modified, and the submitted password is
  neither hashed nor persisted.

  A \<open>ConflictException\<close> comes only from the lookup. The table returned is the table
  given, and the outcome is the same for every hasher, every salt and every submitted
  password: the call ends before it reaches bcrypt or the insert.
\<close>

theorem duplicate_register_leaves_store:
  assumes "fst (register bc env d e pw) = Inl (ConflictException m)"
  shows "findUnique_email d e \<noteq> None \<and>
         snd (register bc env d e pw) = d \<and>
         register bc' env' d e pw' =
           (Inl (ConflictException ''User with this email already exists''), d)"
proof -
  consider (dup) u where "findUnique_email d e = Some u"
    | (late) "findUnique_email d e = None"
        "findUnique_email (d @ concurrent env) e \<noteq> None \<or>
         findUnique_id (d @ concurrent env) (cuid env) \<noteq> None"
    | (new) "findUnique_email (d @ concurrent env) e = None"
        "findUnique_id (d @ concurrent env) (cuid env) = None"
    using register_cases [of d e env] by auto
  then show ?thesis
  proof cases
    case dup
    then show ?thesis by (simp add: register_conflict)
  next
    case late
    with assms show ?thesis by (simp add: register_rejected)
  next
    case new
    with assms show ?thesis by (simp add: register_created)
  qed
qed

theorem duplicate_register_leaves_store_witness:
  "fst (register symbolic_bcrypt example_env [example_user] ''a@b.com'' ''another-password'') =
     Inl (ConflictException ''User with this email already exists'') \<and>
   snd (register symbolic_bcrypt example_env [example_user] ''a@b.com'' ''another-password'') =
     [example_user]"
proof -
  have c: "fst (register symbolic_bcrypt example_env [example_user] ''a@b.com'' ''another-password'')
      = Inl (ConflictException ''User with this email already exists'')"
    by (simp add: register_def register_try_def)
  from duplicate_register_leaves_store [OF c] c show ?thesis by simp
qed

end
